theory Spec2Isabelle
  imports Complex_Main
begin

section \<open>Wavenumber-frequency masks of \<^verbatim>\<open>kf_filter/util.py\<close>\<close>

text \<open>
  The masks of \<^verbatim>\<open>util.py\<close> are boolean fields over the bins of a wavenumber axis and
  a frequency axis. The embedding keeps the two kinds of array the source tells apart
  with \<^verbatim>\<open>isinstance\<close> (a raw numpy array, a labelled xarray \<^verbatim>\<open>DataArray\<close>), takes both
  axes as one-dimensional, and reads a boolean field as a function of the bin, a pair
  of positions \<open>(i, j)\<close> along the wavenumber and the frequency axis: an elementwise
  comparison of the frequency array is the comparison of its \<open>j\<close>-th value, xarray's
  broadcast of two fields over the two dimensions is the pointwise operation.
  Python floats are read as real numbers; \<^verbatim>\<open>assert\<close> raises \<^verbatim>\<open>AssertionError\<close>.
\<close>

subsection \<open>Errors, arrays and fields\<close>

datatype error =
    AssertionError string
  | ValueError string
  | KeyError string
  | TypeError string

record data_array =
  data :: "real list"
  dims :: "string list"
  coords :: "(string \<times> real list) list"

datatype array = Ndarray "real list" | Xr data_array

fun values_of :: "array \<Rightarrow> real list" where
  "values_of (Ndarray v) = v"
| "values_of (Xr d) = data d"

fun is_labeled :: "array \<Rightarrow> bool" where
  "is_labeled (Ndarray v) = False"
| "is_labeled (Xr d) = True"

fun shape :: "array \<Rightarrow> nat list" where
  "shape a = [length (values_of a)]"

text \<open>Arithmetic of an array with a scalar keeps the kind of the array: numpy returns
  a numpy array, xarray a \<^verbatim>\<open>DataArray\<close> on the same dimension and coordinates.\<close>

fun elementwise :: "(real \<Rightarrow> real) \<Rightarrow> array \<Rightarrow> array" where
  "elementwise f (Ndarray v) = Ndarray (map f v)"
| "elementwise f (Xr d) = Xr (d\<lparr>data := map f (data d)\<rparr>)"

definition arr_div :: "array \<Rightarrow> real \<Rightarrow> array" where
  "arr_div a s = elementwise (\<lambda>x. x / s) a"

definition arr_mul :: "array \<Rightarrow> real \<Rightarrow> array" where
  "arr_mul a s = elementwise (\<lambda>x. x * s) a"

type_synonym bin = "nat \<times> nat"

type_synonym mask = "bin \<Rightarrow> bool"

definition wn_at :: "array \<Rightarrow> bin \<Rightarrow> real" where
  "wn_at wavenumber b = values_of wavenumber ! fst b"

definition fr_at :: "array \<Rightarrow> bin \<Rightarrow> real" where
  "fr_at frequency b = values_of frequency ! snd b"

definition logical_and :: "mask \<Rightarrow> mask \<Rightarrow> mask" where
  "logical_and x y = (\<lambda>b. x b \<and> y b)"

definition logical_or :: "mask \<Rightarrow> mask \<Rightarrow> mask" where
  "logical_or x y = (\<lambda>b. x b \<or> y b)"

text \<open>\<^verbatim>\<open>functools.reduce\<close> without an initial value raises \<^verbatim>\<open>TypeError\<close> on an empty
  sequence.\<close>

fun reduce :: "('a \<Rightarrow> 'a \<Rightarrow> 'a) \<Rightarrow> 'a list \<Rightarrow> error + 'a" where
  "reduce f [] = Inl (TypeError ''reduce() of empty iterable with no initial value'')"
| "reduce f (x # xs) = Inr (foldl f x xs)"

datatype operator = gt | lt

subsection \<open>The external collaborators\<close>

text \<open>The module \<^verbatim>\<open>kf_filter.consts\<close> is not part of the sources. Its physical constants
  and its registry of dispersion functions are parameters of the model; a dispersion
  function takes the comparator, the two non-dimensional arrays and the mode number
  and returns a boolean field.\<close>

type_synonym dispersion = "operator \<Rightarrow> array \<Rightarrow> array \<Rightarrow> int \<Rightarrow> mask"

record kf_consts =
  g :: real
  radius_earth :: real
  beta :: real
  wave_func :: "string \<Rightarrow> dispersion option"

text \<open>Modelled from the spec: the list \<^verbatim>\<open>wave_types\<close> of \<^verbatim>\<open>kf_filter.consts\<close>, which is
  not under the sources; the spec (4.4) gives its members as kelvin, er, ig, eig, mrg.\<close>

definition wave_types :: "string list" where
  "wave_types = [''kelvin'', ''er'', ''ig'', ''eig'', ''mrg'']"

subsection \<open>\<^verbatim>\<open>_combine_plus_minus\<close>\<close>

definition combine_plus_minus :: "mask list \<Rightarrow> mask list \<Rightarrow> error + mask" where
  "combine_plus_minus logical_plus logical_minus =
     (case reduce logical_and logical_plus of
        Inl e \<Rightarrow> Inl e
      | Inr omega_plus \<Rightarrow>
          (case reduce logical_and logical_minus of
             Inl e \<Rightarrow> Inl e
           | Inr omega_minus \<Rightarrow> Inr (logical_or omega_plus omega_minus)))"

subsection \<open>\<^verbatim>\<open>_wrap_to_xarray\<close>\<close>

definition wrap_to_xarray :: "array \<Rightarrow> array \<Rightarrow> array \<times> array" where
  "wrap_to_xarray wavenumber frequency =
     (let wavenumber' =
            (case wavenumber of
               Ndarray v \<Rightarrow>
                 Xr \<lparr>data = v, dims = [''wavenumber''], coords = [(''wavenumber'', v)]\<rparr>
             | Xr d \<Rightarrow> wavenumber);
          frequency' =
            (case frequency of
               Ndarray v \<Rightarrow>
                 Xr \<lparr>data = v, dims = [''frequency''], coords = [(''frequency'', v)]\<rparr>
             | Xr d \<Rightarrow> frequency)
      in (wavenumber', frequency'))"

subsection \<open>\<^verbatim>\<open>_nondim_k_omega\<close>\<close>

text \<open>The source calls \<^verbatim>\<open>_wrap_to_xarray\<close> and drops what it returns: the arithmetic
  runs on the arguments as they were passed.\<close>

definition nondim_k_omega :: "kf_consts \<Rightarrow> array \<Rightarrow> array \<Rightarrow> real \<Rightarrow> array \<times> array" where
  "nondim_k_omega cs wavenumber frequency h =
     (let dropped = wrap_to_xarray wavenumber frequency;
          c = sqrt (g cs * h);
          k_nondim = arr_mul (arr_div wavenumber (radius_earth cs)) (sqrt (c / beta cs));
          omega_nondim =
            arr_div (arr_div (arr_mul (arr_mul frequency 2) pi) (24 * 3600))
              (sqrt (beta cs * c))
      in (k_nondim, omega_nondim))"

subsection \<open>\<^verbatim>\<open>kf_mask\<close>\<close>

datatype kf_result = Combined mask | Individual "mask list" "mask list"

definition kf_mask ::
  "array \<Rightarrow> array \<Rightarrow> real option \<Rightarrow> real option \<Rightarrow> real option \<Rightarrow> real option \<Rightarrow> bool
     \<Rightarrow> error + kf_result" where
  \<open>kf_mask wavenumber0 frequency0 fmin fmax kmin kmax return_individual =
     (let (wavenumber, frequency) = wrap_to_xarray wavenumber0 frequency0;
          plus0 = [\<lambda>b. fr_at frequency b > 0];
          minus0 = [\<lambda>b. fr_at frequency b < 0]
      in
      (case (case fmin of
               None \<Rightarrow> Inr (plus0, minus0)
             | Some lo \<Rightarrow>
                 if \<not> lo > 0
                 then Inl (AssertionError ''Frequency "fmin" must be greater than 0.'')
                 else Inr (plus0 @ [\<lambda>b. fr_at frequency b > lo],
                           minus0 @ [\<lambda>b. fr_at frequency b < - lo])) of
         Inl e \<Rightarrow> Inl e
       | Inr (plus1, minus1) \<Rightarrow>
      (case (case fmax of
               None \<Rightarrow> Inr (plus1, minus1)
             | Some hi \<Rightarrow>
                 if \<not> hi > 0
                 then Inl (AssertionError ''Frequency "fmax" must be greater than 0.'')
                 else Inr (plus1 @ [\<lambda>b. fr_at frequency b < hi],
                           minus1 @ [\<lambda>b. fr_at frequency b > - hi])) of
         Inl e \<Rightarrow> Inl e
       | Inr (plus2, minus2) \<Rightarrow>
      (let (plus3, minus3) =
             (case kmin of
                None \<Rightarrow> (plus2, minus2)
              | Some lo \<Rightarrow> (plus2 @ [\<lambda>b. wn_at wavenumber b > lo],
                            minus2 @ [\<lambda>b. wn_at wavenumber b < - lo]));
           (logical_plus, logical_minus) =
             (case kmax of
                None \<Rightarrow> (plus3, minus3)
              | Some hi \<Rightarrow> (plus3 @ [\<lambda>b. wn_at wavenumber b < hi],
                            minus3 @ [\<lambda>b. wn_at wavenumber b > - hi]))
       in
       if (case (fmin, fmax) of (Some lo, Some hi) \<Rightarrow> \<not> lo < hi | _ \<Rightarrow> False)
       then Inl (AssertionError ''"fmin" should be smaller than "fmax".'')
       else if (case (kmin, kmax) of (Some lo, Some hi) \<Rightarrow> \<not> lo < hi | _ \<Rightarrow> False)
       then Inl (AssertionError ''Wavenumber "kmin" should be smaller than "kmax".'')
       else if return_individual then Inr (Individual logical_plus logical_minus)
       else (case combine_plus_minus logical_plus logical_minus of
               Inl e \<Rightarrow> Inl e
             | Inr m \<Rightarrow> Inr (Combined m))))))\<close>

subsection \<open>\<^verbatim>\<open>wave_mask\<close>\<close>

definition unsupported_wave_type :: "string \<Rightarrow> string" where
  \<open>unsupported_wave_type wave_type = ''Unsupported wave_type "'' @ wave_type @ ''".''\<close>

definition wave_mask ::
  "kf_consts \<Rightarrow> array \<Rightarrow> array \<Rightarrow> string \<Rightarrow> real option \<Rightarrow> real option \<Rightarrow> real option
     \<Rightarrow> real option \<Rightarrow> real option \<Rightarrow> real option \<Rightarrow> int \<Rightarrow> error + mask" where
  "wave_mask cs wavenumber0 frequency0 wave_type fmin fmax kmin kmax hmin hmax n =
     (let (wavenumber, frequency) = wrap_to_xarray wavenumber0 frequency0 in
      case kf_mask wavenumber frequency fmin fmax kmin kmax True of
        Inl e \<Rightarrow> Inl e
      | Inr (Combined m) \<Rightarrow> Inl (TypeError ''cannot unpack the combined mask'')
      | Inr (Individual plus0 minus0) \<Rightarrow>
          if wave_type \<notin> set wave_types
          then Inl (ValueError (unsupported_wave_type wave_type))
          else
            (case wave_func cs wave_type of
               None \<Rightarrow> Inl (KeyError wave_type)
             | Some func \<Rightarrow>
                 let (plus1, minus1) =
                       (case hmin of
                          None \<Rightarrow> (plus0, minus0)
                        | Some h \<Rightarrow>
                            let (k, omega) = nondim_k_omega cs wavenumber frequency h
                            in (plus0 @ [func gt omega k n],
                                if wave_type \<in> set [''ig'', ''eig'', ''mrg'']
                                then minus0 @ [func gt omega k n]
                                else minus0 @ [func lt omega k n]));
                     (logical_plus, logical_minus) =
                       (case hmax of
                          None \<Rightarrow> (plus1, minus1)
                        | Some h \<Rightarrow>
                            let (k, omega) = nondim_k_omega cs wavenumber frequency h
                            in (plus1 @ [func lt omega k n],
                                if wave_type \<in> set [''ig'', ''eig'', ''mrg'']
                                then minus1 @ [func lt omega k n]
                                else minus1 @ [func gt omega k n]))
                 in combine_plus_minus logical_plus logical_minus))"

subsection \<open>\<^verbatim>\<open>td_mask\<close>\<close>

definition td_mask ::
  "array \<Rightarrow> array \<Rightarrow> real option \<Rightarrow> real option \<Rightarrow> real option \<Rightarrow> real option
     \<Rightarrow> error + mask" where
  "td_mask wavenumber0 frequency0 fmin fmax kmin kmax =
     (let (wavenumber, frequency) = wrap_to_xarray wavenumber0 frequency0 in
      case kf_mask wavenumber frequency fmin fmax kmin kmax True of
        Inl e \<Rightarrow> Inl e
      | Inr (Combined m) \<Rightarrow> Inl (TypeError ''cannot unpack the combined mask'')
      | Inr (Individual plus0 minus0) \<Rightarrow>
          let plus1 = plus0 @ [\<lambda>b. 84 * fr_at frequency b + wn_at wavenumber b - 22 < 0];
              minus1 = minus0 @ [\<lambda>b. 84 * fr_at frequency b + wn_at wavenumber b + 22 > 0];
              logical_plus =
                plus1 @ [\<lambda>b. 210 * fr_at frequency b + 2.5 * wn_at wavenumber b - 13 > 0];
              logical_minus =
                minus1 @ [\<lambda>b. 210 * fr_at frequency b + 2.5 * wn_at wavenumber b + 13 < 0]
          in combine_plus_minus logical_plus logical_minus)"

text \<open>The keyword defaults of the signatures.\<close>

definition td_mask_default :: "array \<Rightarrow> array \<Rightarrow> error + mask" where
  "td_mask_default wavenumber frequency =
     td_mask wavenumber frequency None None (Some (- 20)) (Some (- 6))"

definition wave_mask_default :: "kf_consts \<Rightarrow> array \<Rightarrow> array \<Rightarrow> string \<Rightarrow> error + mask" where
  "wave_mask_default cs wavenumber frequency wave_type =
     wave_mask cs wavenumber frequency wave_type
       (Some 0.05) (Some 0.4) None (Some 14) (Some 8) (Some 90) 1"

subsection \<open>The box bounds in closed form\<close>

text \<open>The definitions named \<open>spec_\<close> follow the wording of the specification: the
  constraints on the bounds, the comparisons of the two branches at a bin with
  wavenumber \<open>k\<close> and frequency \<open>f\<close>, and the four messages with the constraint each
  one names. \<open>box_plus\<close> and \<open>box_minus\<close> are the two lists \<^verbatim>\<open>kf_mask\<close> builds, written
  out at once.\<close>

definition spec_bounds_valid :: "real option \<Rightarrow> real option \<Rightarrow> real option \<Rightarrow> real option \<Rightarrow> bool" where
  "spec_bounds_valid fmin fmax kmin kmax =
     ((case fmin of None \<Rightarrow> True | Some lo \<Rightarrow> 0 < lo) \<and>
      (case fmax of None \<Rightarrow> True | Some hi \<Rightarrow> 0 < hi) \<and>
      (case (fmin, fmax) of (Some lo, Some hi) \<Rightarrow> lo < hi | _ \<Rightarrow> True) \<and>
      (case (kmin, kmax) of (Some lo, Some hi) \<Rightarrow> lo < hi | _ \<Rightarrow> True))"

definition spec_plus_branch ::
  "real option \<Rightarrow> real option \<Rightarrow> real option \<Rightarrow> real option \<Rightarrow> real \<Rightarrow> real \<Rightarrow> bool" where
  "spec_plus_branch fmin fmax kmin kmax k f =
     ((case fmin of None \<Rightarrow> True | Some lo \<Rightarrow> f > lo) \<and>
      (case fmax of None \<Rightarrow> True | Some hi \<Rightarrow> f < hi) \<and>
      (case kmin of None \<Rightarrow> True | Some lo \<Rightarrow> k > lo) \<and>
      (case kmax of None \<Rightarrow> True | Some hi \<Rightarrow> k < hi))"

definition spec_minus_branch ::
  "real option \<Rightarrow> real option \<Rightarrow> real option \<Rightarrow> real option \<Rightarrow> real \<Rightarrow> real \<Rightarrow> bool" where
  "spec_minus_branch fmin fmax kmin kmax k f =
     ((case fmin of None \<Rightarrow> True | Some lo \<Rightarrow> f < - lo) \<and>
      (case fmax of None \<Rightarrow> True | Some hi \<Rightarrow> f > - hi) \<and>
      (case kmin of None \<Rightarrow> True | Some lo \<Rightarrow> k < - lo) \<and>
      (case kmax of None \<Rightarrow> True | Some hi \<Rightarrow> k > - hi))"

definition box_plus :: "array \<Rightarrow> array \<Rightarrow> real option \<Rightarrow> real option \<Rightarrow> real option \<Rightarrow> real option \<Rightarrow> mask list" where
  "box_plus w f fmin fmax kmin kmax =
     [\<lambda>b. fr_at f b > 0]
     @ (case fmin of None \<Rightarrow> [] | Some lo \<Rightarrow> [\<lambda>b. fr_at f b > lo])
     @ (case fmax of None \<Rightarrow> [] | Some hi \<Rightarrow> [\<lambda>b. fr_at f b < hi])
     @ (case kmin of None \<Rightarrow> [] | Some lo \<Rightarrow> [\<lambda>b. wn_at w b > lo])
     @ (case kmax of None \<Rightarrow> [] | Some hi \<Rightarrow> [\<lambda>b. wn_at w b < hi])"

definition box_minus :: "array \<Rightarrow> array \<Rightarrow> real option \<Rightarrow> real option \<Rightarrow> real option \<Rightarrow> real option \<Rightarrow> mask list" where
  "box_minus w f fmin fmax kmin kmax =
     [\<lambda>b. fr_at f b < 0]
     @ (case fmin of None \<Rightarrow> [] | Some lo \<Rightarrow> [\<lambda>b. fr_at f b < - lo])
     @ (case fmax of None \<Rightarrow> [] | Some hi \<Rightarrow> [\<lambda>b. fr_at f b > - hi])
     @ (case kmin of None \<Rightarrow> [] | Some lo \<Rightarrow> [\<lambda>b. wn_at w b < - lo])
     @ (case kmax of None \<Rightarrow> [] | Some hi \<Rightarrow> [\<lambda>b. wn_at w b > - hi])"

definition spec_names_violation ::
  "string \<Rightarrow> real option \<Rightarrow> real option \<Rightarrow> real option \<Rightarrow> real option \<Rightarrow> bool" where
  \<open>spec_names_violation msg fmin fmax kmin kmax =
     ((msg = ''Frequency "fmin" must be greater than 0.'' \<and>
         (case fmin of None \<Rightarrow> False | Some lo \<Rightarrow> \<not> 0 < lo)) \<or>
      (msg = ''Frequency "fmax" must be greater than 0.'' \<and>
         (case fmax of None \<Rightarrow> False | Some hi \<Rightarrow> \<not> 0 < hi)) \<or>
      (msg = ''"fmin" should be smaller than "fmax".'' \<and>
         (case (fmin, fmax) of (Some lo, Some hi) \<Rightarrow> \<not> lo < hi | _ \<Rightarrow> False)) \<or>
      (msg = ''Wavenumber "kmin" should be smaller than "kmax".'' \<and>
         (case (kmin, kmax) of (Some lo, Some hi) \<Rightarrow> \<not> lo < hi | _ \<Rightarrow> False)))\<close>

subsection \<open>The labels of an array, and the dispersion predicates in closed form\<close>

text \<open>The dimension and the coordinates a labelled array carries; a raw array has none.\<close>

fun labels_of :: "array \<Rightarrow> (string list \<times> (string \<times> real list) list) option" where
  "labels_of (Ndarray v) = None"
| "labels_of (Xr d) = Some (dims d, coords d)"

text \<open>The comparator the specification gives the minus branch (less-than next to hmin and
  greater-than next to hmax for er and kelvin, the comparator of the plus branch for
  the others), and the predicates \<^verbatim>\<open>wave_mask\<close> appends, evaluated on the
  non-dimensional arrays at hmin and at hmax.\<close>

definition spec_minus_op_hmin :: "string \<Rightarrow> operator" where
  "spec_minus_op_hmin wave_type =
     (if wave_type = ''er'' \<or> wave_type = ''kelvin'' then lt else gt)"

definition spec_minus_op_hmax :: "string \<Rightarrow> operator" where
  "spec_minus_op_hmax wave_type =
     (if wave_type = ''er'' \<or> wave_type = ''kelvin'' then gt else lt)"

definition spec_disp_plus ::
  "kf_consts \<Rightarrow> dispersion \<Rightarrow> array \<Rightarrow> array \<Rightarrow> real option \<Rightarrow> real option \<Rightarrow> int \<Rightarrow> mask list" where
  "spec_disp_plus cs func w f hmin hmax n =
     (case hmin of
        None \<Rightarrow> []
      | Some h \<Rightarrow> [func gt (snd (nondim_k_omega cs w f h)) (fst (nondim_k_omega cs w f h)) n])
     @ (case hmax of
          None \<Rightarrow> []
        | Some h \<Rightarrow> [func lt (snd (nondim_k_omega cs w f h)) (fst (nondim_k_omega cs w f h)) n])"

definition spec_disp_minus ::
  "kf_consts \<Rightarrow> dispersion \<Rightarrow> string \<Rightarrow> array \<Rightarrow> array \<Rightarrow> real option \<Rightarrow> real option \<Rightarrow> int
     \<Rightarrow> mask list" where
  "spec_disp_minus cs func wave_type w f hmin hmax n =
     (case hmin of
        None \<Rightarrow> []
      | Some h \<Rightarrow> [func (spec_minus_op_hmin wave_type)
                     (snd (nondim_k_omega cs w f h)) (fst (nondim_k_omega cs w f h)) n])
     @ (case hmax of
          None \<Rightarrow> []
        | Some h \<Rightarrow> [func (spec_minus_op_hmax wave_type)
                       (snd (nondim_k_omega cs w f h)) (fst (nondim_k_omega cs w f h)) n])"

section \<open>Properties\<close>

subsection \<open>Combination, wrapping and the box lists\<close>

lemma foldl_logical_and: "foldl logical_and x xs b \<longleftrightarrow> x b \<and> list_all (\<lambda>p. p b) xs"
  by (induction xs arbitrary: x) (auto simp: logical_and_def)

lemma reduce_logical_and:
  "xs \<noteq> [] \<Longrightarrow> reduce logical_and xs = Inr (\<lambda>b. list_all (\<lambda>p. p b) xs)"
  by (cases xs) (auto simp: foldl_logical_and)

lemma combine_plus_minus_eq:
  "ps \<noteq> [] \<Longrightarrow> ms \<noteq> [] \<Longrightarrow>
   combine_plus_minus ps ms =
     Inr (\<lambda>b. list_all (\<lambda>p. p b) ps \<or> list_all (\<lambda>p. p b) ms)"
  by (simp add: combine_plus_minus_def reduce_logical_and logical_or_def)

lemma values_of_wrap:
  "values_of (fst (wrap_to_xarray w f)) = values_of w"
  "values_of (snd (wrap_to_xarray w f)) = values_of f"
  by (simp_all add: wrap_to_xarray_def Let_def split: array.splits)

lemma at_wrap:
  "wn_at (fst (wrap_to_xarray w f)) = wn_at w"
  "fr_at (snd (wrap_to_xarray w f)) = fr_at f"
  by (simp_all add: wn_at_def fr_at_def values_of_wrap fun_eq_iff)

lemma wrap_wrap:
  "wrap_to_xarray (fst (wrap_to_xarray w f)) (snd (wrap_to_xarray w f)) = wrap_to_xarray w f"
  by (simp add: wrap_to_xarray_def Let_def split: array.splits)

lemma box_wrap:
  "box_plus (fst (wrap_to_xarray w f)) (snd (wrap_to_xarray w f)) = box_plus w f"
  "box_minus (fst (wrap_to_xarray w f)) (snd (wrap_to_xarray w f)) = box_minus w f"
  by (simp_all add: box_plus_def box_minus_def at_wrap fun_eq_iff split: option.splits)

lemma kf_mask_valid:
  "spec_bounds_valid fmin fmax kmin kmax \<Longrightarrow>
   kf_mask w f fmin fmax kmin kmax ri =
     (if ri then Inr (Individual (box_plus w f fmin fmax kmin kmax) (box_minus w f fmin fmax kmin kmax))
      else (case combine_plus_minus (box_plus w f fmin fmax kmin kmax) (box_minus w f fmin fmax kmin kmax) of
              Inl e \<Rightarrow> Inl e | Inr m \<Rightarrow> Inr (Combined m)))"
  by (cases "wrap_to_xarray w f")
     (auto simp: kf_mask_def spec_bounds_valid_def box_plus_def box_minus_def at_wrap[of w f, symmetric]
           split: option.splits)

lemma kf_mask_invalid:
  "\<not> spec_bounds_valid fmin fmax kmin kmax \<Longrightarrow>
   \<exists>msg. kf_mask w f fmin fmax kmin kmax ri = Inl (AssertionError msg) \<and>
         spec_names_violation msg fmin fmax kmin kmax"
  by (cases "wrap_to_xarray w f")
     (auto simp: kf_mask_def spec_bounds_valid_def spec_names_violation_def
           split: option.splits)

lemma box_nonempty: "box_plus w f fmin fmax kmin kmax \<noteq> []" "box_minus w f fmin fmax kmin kmax \<noteq> []"
  by (simp_all add: box_plus_def box_minus_def)

lemma box_plus_all:
  "list_all (\<lambda>p. p b) (box_plus w f fmin fmax kmin kmax) \<longleftrightarrow>
     fr_at f b > 0 \<and> spec_plus_branch fmin fmax kmin kmax (wn_at w b) (fr_at f b)"
  by (auto simp: box_plus_def spec_plus_branch_def split: option.splits)

lemma box_minus_all:
  "list_all (\<lambda>p. p b) (box_minus w f fmin fmax kmin kmax) \<longleftrightarrow>
     fr_at f b < 0 \<and> spec_minus_branch fmin fmax kmin kmax (wn_at w b) (fr_at f b)"
  by (auto simp: box_minus_def spec_minus_branch_def split: option.splits)

lemma kf_mask_combined:
  "spec_bounds_valid fmin fmax kmin kmax \<Longrightarrow>
   kf_mask w f fmin fmax kmin kmax False =
     Inr (Combined (\<lambda>b. fr_at f b > 0 \<and> spec_plus_branch fmin fmax kmin kmax (wn_at w b) (fr_at f b) \<or>
                        fr_at f b < 0 \<and> spec_minus_branch fmin fmax kmin kmax (wn_at w b) (fr_at f b)))"
  by (simp add: kf_mask_valid combine_plus_minus_eq box_nonempty box_plus_all box_minus_all)

subsection \<open>The wave and the tropical-depression masks in closed form\<close>

lemma kf_mask_wrapped:
  "kf_mask (fst (wrap_to_xarray w f)) (snd (wrap_to_xarray w f)) fmin fmax kmin kmax ri
     = kf_mask w f fmin fmax kmin kmax ri"
  by (simp add: kf_mask_def wrap_wrap)

lemma wave_mask_valid:
  assumes "spec_bounds_valid fmin fmax kmin kmax"
    and "wave_type \<in> set wave_types"
    and "wave_func cs wave_type = Some func"
  shows "wave_mask cs w f wave_type fmin fmax kmin kmax hmin hmax n =
     combine_plus_minus
       (box_plus w f fmin fmax kmin kmax
          @ spec_disp_plus cs func (fst (wrap_to_xarray w f)) (snd (wrap_to_xarray w f)) hmin hmax n)
       (box_minus w f fmin fmax kmin kmax
          @ spec_disp_minus cs func wave_type (fst (wrap_to_xarray w f)) (snd (wrap_to_xarray w f))
              hmin hmax n)"
proof -
  obtain w' f' where wf: "wrap_to_xarray w f = (w', f')"
    by (cases "wrap_to_xarray w f")
  have kf: "kf_mask w' f' fmin fmax kmin kmax True =
      Inr (Individual (box_plus w f fmin fmax kmin kmax) (box_minus w f fmin fmax kmin kmax))"
    using kf_mask_wrapped [of w f fmin fmax kmin kmax True] assms(1)
    by (simp add: wf kf_mask_valid)
  have "wave_type = ''kelvin'' \<or> wave_type = ''er'' \<or> wave_type = ''ig'' \<or>
        wave_type = ''eig'' \<or> wave_type = ''mrg''"
    using assms(2) by (simp add: wave_types_def)
  then show ?thesis
    using assms(3)
    by (cases hmin; cases hmax)
       (auto simp: wave_mask_def wf kf spec_disp_plus_def spec_disp_minus_def wave_types_def
          spec_minus_op_hmin_def spec_minus_op_hmax_def split: prod.splits)
qed

lemma wave_mask_invalid:
  assumes "\<not> spec_bounds_valid fmin fmax kmin kmax"
  shows "\<exists>msg. wave_mask cs w f wave_type fmin fmax kmin kmax hmin hmax n = Inl (AssertionError msg) \<and>
           spec_names_violation msg fmin fmax kmin kmax"
proof -
  obtain w' f' where wf: "wrap_to_xarray w f = (w', f')"
    by (cases "wrap_to_xarray w f")
  from kf_mask_invalid [OF assms, of w f True] obtain msg where
    "kf_mask w f fmin fmax kmin kmax True = Inl (AssertionError msg)"
    and v: "spec_names_violation msg fmin fmax kmin kmax"
    by blast
  then have "kf_mask w' f' fmin fmax kmin kmax True = Inl (AssertionError msg)"
    using kf_mask_wrapped [of w f fmin fmax kmin kmax True] by (simp add: wf)
  then have "wave_mask cs w f wave_type fmin fmax kmin kmax hmin hmax n = Inl (AssertionError msg)"
    by (simp add: wave_mask_def wf)
  with v show ?thesis by blast
qed

lemma wave_mask_unrecognized:
  assumes "spec_bounds_valid fmin fmax kmin kmax" and "wave_type \<notin> set wave_types"
  shows "wave_mask cs w f wave_type fmin fmax kmin kmax hmin hmax n
           = Inl (ValueError (unsupported_wave_type wave_type))"
proof -
  obtain w' f' where wf: "wrap_to_xarray w f = (w', f')"
    by (cases "wrap_to_xarray w f")
  have "kf_mask w' f' fmin fmax kmin kmax True =
      Inr (Individual (box_plus w f fmin fmax kmin kmax) (box_minus w f fmin fmax kmin kmax))"
    using kf_mask_wrapped [of w f fmin fmax kmin kmax True] assms(1)
    by (simp add: wf kf_mask_valid)
  then show ?thesis
    using assms(2) by (simp add: wave_mask_def wf)
qed

lemma wave_mask_no_func:
  assumes "spec_bounds_valid fmin fmax kmin kmax" and "wave_type \<in> set wave_types"
    and "wave_func cs wave_type = None"
  shows "wave_mask cs w f wave_type fmin fmax kmin kmax hmin hmax n = Inl (KeyError wave_type)"
proof -
  obtain w' f' where wf: "wrap_to_xarray w f = (w', f')"
    by (cases "wrap_to_xarray w f")
  have "kf_mask w' f' fmin fmax kmin kmax True =
      Inr (Individual (box_plus w f fmin fmax kmin kmax) (box_minus w f fmin fmax kmin kmax))"
    using kf_mask_wrapped [of w f fmin fmax kmin kmax True] assms(1)
    by (simp add: wf kf_mask_valid)
  then show ?thesis
    using assms(2,3) by (simp add: wave_mask_def wf)
qed

lemma td_mask_valid:
  assumes "spec_bounds_valid fmin fmax kmin kmax"
  shows "td_mask w f fmin fmax kmin kmax =
     combine_plus_minus
       (box_plus w f fmin fmax kmin kmax
          @ [\<lambda>b. 84 * fr_at f b + wn_at w b - 22 < 0,
             \<lambda>b. 210 * fr_at f b + 2.5 * wn_at w b - 13 > 0])
       (box_minus w f fmin fmax kmin kmax
          @ [\<lambda>b. 84 * fr_at f b + wn_at w b + 22 > 0,
             \<lambda>b. 210 * fr_at f b + 2.5 * wn_at w b + 13 < 0])"
proof -
  obtain w' f' where wf: "wrap_to_xarray w f = (w', f')"
    by (cases "wrap_to_xarray w f")
  have kf: "kf_mask w' f' fmin fmax kmin kmax True =
      Inr (Individual (box_plus w f fmin fmax kmin kmax) (box_minus w f fmin fmax kmin kmax))"
    using kf_mask_wrapped [of w f fmin fmax kmin kmax True] assms(1)
    by (simp add: wf kf_mask_valid)
  have at: "wn_at w' = wn_at w" "fr_at f' = fr_at f"
    using at_wrap [of w f] by (simp_all add: wf)
  show ?thesis
    by (simp add: td_mask_def wf kf at Let_def)
qed

lemma td_mask_invalid:
  assumes "\<not> spec_bounds_valid fmin fmax kmin kmax"
  shows "\<exists>msg. td_mask w f fmin fmax kmin kmax = Inl (AssertionError msg) \<and>
           spec_names_violation msg fmin fmax kmin kmax"
proof -
  obtain w' f' where wf: "wrap_to_xarray w f = (w', f')"
    by (cases "wrap_to_xarray w f")
  from kf_mask_invalid [OF assms, of w f True] obtain msg where
    "kf_mask w f fmin fmax kmin kmax True = Inl (AssertionError msg)"
    and v: "spec_names_violation msg fmin fmax kmin kmax"
    by blast
  then have "kf_mask w' f' fmin fmax kmin kmax True = Inl (AssertionError msg)"
    using kf_mask_wrapped [of w f fmin fmax kmin kmax True] by (simp add: wf)
  then have "td_mask w f fmin fmax kmin kmax = Inl (AssertionError msg)"
    by (simp add: td_mask_def wf)
  with v show ?thesis by blast
qed

lemma values_of_elementwise: "values_of (elementwise fn a) = map fn (values_of a)"
  by (cases a) simp_all

lemma labels_of_elementwise: "labels_of (elementwise fn a) = labels_of a"
  by (cases a) simp_all

lemma is_labeled_elementwise: "is_labeled (elementwise fn a) = is_labeled a"
  by (cases a) simp_all

lemma disp_wrap_nonempty:
  "box_plus w f fmin fmax kmin kmax @ xs \<noteq> []" "box_minus w f fmin fmax kmin kmax @ xs \<noteq> []"
  by (simp_all add: box_nonempty)

lemma combine_box:
  "combine_plus_minus (box_plus w f fmin fmax kmin kmax @ xs) (box_minus w f fmin fmax kmin kmax @ ys) =
     Inr (\<lambda>b. list_all (\<lambda>p. p b) (box_plus w f fmin fmax kmin kmax @ xs) \<or>
              list_all (\<lambda>p. p b) (box_minus w f fmin fmax kmin kmax @ ys))"
  by (rule combine_plus_minus_eq) (simp_all add: box_nonempty)

lemma combine_box_zero:
  assumes "fr_at f b = 0"
    and "combine_plus_minus (box_plus w f fmin fmax kmin kmax @ xs)
           (box_minus w f fmin fmax kmin kmax @ ys) = Inr m"
  shows "\<not> m b"
proof -
  have p: "\<not> list_all (\<lambda>p. p b) (box_plus w f fmin fmax kmin kmax @ xs)"
    using assms(1) by (simp add: box_plus_all)
  have q: "\<not> list_all (\<lambda>p. p b) (box_minus w f fmin fmax kmin kmax @ ys)"
    using assms(1) by (simp add: box_minus_all)
  from assms(2) have "m = (\<lambda>b. list_all (\<lambda>p. p b) (box_plus w f fmin fmax kmin kmax @ xs) \<or>
              list_all (\<lambda>p. p b) (box_minus w f fmin fmax kmin kmax @ ys))"
    by (simp only: combine_box sum.inject)
  with p q show ?thesis by simp
qed

subsection \<open>The box mask\<close>

text \<open>C1. For every grid and every combination of bounds that passes the validation,
  the combined \<^verbatim>\<open>kf_mask\<close> is returned, and it is True at a bin exactly when the
  frequency is positive and every supplied plus-branch comparison holds there, or the
  frequency is negative and every supplied minus-branch comparison holds there.\<close>

theorem kf_mask_bin_iff:
  assumes "spec_bounds_valid fmin fmax kmin kmax"
  shows "\<exists>m. kf_mask wavenumber frequency fmin fmax kmin kmax False = Inr (Combined m) \<and>
           (\<forall>b. m b \<longleftrightarrow>
              (fr_at frequency b > 0 \<and>
                 spec_plus_branch fmin fmax kmin kmax (wn_at wavenumber b) (fr_at frequency b)) \<or>
              (fr_at frequency b < 0 \<and>
                 spec_minus_branch fmin fmax kmin kmax (wn_at wavenumber b) (fr_at frequency b)))"
  using assms by (simp add: kf_mask_combined)

theorem kf_mask_bin_iff_witness:
  "spec_bounds_valid (Some 0.05) (Some 0.4) None (Some 14) \<and>
   (\<exists>m. kf_mask (Ndarray [- 1, 1, 20]) (Ndarray [- 0.1, 0, 0.1]) (Some 0.05) (Some 0.4) None (Some 14) False
          = Inr (Combined m) \<and>
        m (1, 2) \<and> m (0, 0) \<and> \<not> m (1, 1) \<and> \<not> m (2, 2) \<and> m (2, 0))"
proof -
  have v: "spec_bounds_valid (Some 0.05) (Some 0.4) None (Some 14)"
    by (simp add: spec_bounds_valid_def)
  from kf_mask_bin_iff [OF v, of "Ndarray [- 1, 1, 20]" "Ndarray [- 0.1, 0, 0.1]"]
  obtain m where
    m: "kf_mask (Ndarray [- 1, 1, 20]) (Ndarray [- 0.1, 0, 0.1]) (Some 0.05) (Some 0.4) None (Some 14) False
          = Inr (Combined m)"
    and b: "\<And>b. m b \<longleftrightarrow>
              (fr_at (Ndarray [- 0.1, 0, 0.1]) b > 0 \<and>
                 spec_plus_branch (Some 0.05) (Some 0.4) None (Some 14) (wn_at (Ndarray [- 1, 1, 20]) b) (fr_at (Ndarray [- 0.1, 0, 0.1]) b)) \<or>
              (fr_at (Ndarray [- 0.1, 0, 0.1]) b < 0 \<and>
                 spec_minus_branch (Some 0.05) (Some 0.4) None (Some 14) (wn_at (Ndarray [- 1, 1, 20]) b) (fr_at (Ndarray [- 0.1, 0, 0.1]) b))"
    by blast
  have "m (1, 2)" "m (0, 0)" "\<not> m (1, 1)" "\<not> m (2, 2)" "m (2, 0)"
    by (simp_all add: b fr_at_def wn_at_def spec_plus_branch_def spec_minus_branch_def)
  with v m show ?thesis by blast
qed

text \<open>C3. For valid bounds the combined \<^verbatim>\<open>kf_mask\<close> has the same value at two bins
  whose wavenumbers and whose frequencies are each other's negatives.\<close>

theorem kf_mask_symmetric:
  assumes "spec_bounds_valid fmin fmax kmin kmax"
    and "wn_at wavenumber b' = - wn_at wavenumber b"
    and "fr_at frequency b' = - fr_at frequency b"
  shows "\<exists>m. kf_mask wavenumber frequency fmin fmax kmin kmax False = Inr (Combined m) \<and>
           m b' = m b"
  using assms
  by (auto simp: kf_mask_combined spec_plus_branch_def spec_minus_branch_def split: option.splits)

theorem kf_mask_symmetric_witness:
  "spec_bounds_valid (Some 0.05) (Some 0.4) (Some (- 3)) (Some 14) \<and>
   wn_at (Ndarray [- 1, 1, 20]) (0, 0) = - wn_at (Ndarray [- 1, 1, 20]) (1, 2) \<and>
   fr_at (Ndarray [- 0.1, 0, 0.1]) (0, 0) = - fr_at (Ndarray [- 0.1, 0, 0.1]) (1, 2) \<and>
   (\<exists>m. kf_mask (Ndarray [- 1, 1, 20]) (Ndarray [- 0.1, 0, 0.1])
           (Some 0.05) (Some 0.4) (Some (- 3)) (Some 14) False = Inr (Combined m) \<and>
        m (0, 0) = m (1, 2))"
proof -
  have v: "spec_bounds_valid (Some 0.05) (Some 0.4) (Some (- 3)) (Some 14)"
    by (simp add: spec_bounds_valid_def)
  have k: "wn_at (Ndarray [- 1, 1, 20]) (0, 0) = - wn_at (Ndarray [- 1, 1, 20]) (1, 2)"
    by (simp add: wn_at_def)
  have f: "fr_at (Ndarray [- 0.1, 0, 0.1]) (0, 0) = - fr_at (Ndarray [- 0.1, 0, 0.1]) (1, 2)"
    by (simp add: fr_at_def)
  from kf_mask_symmetric [OF v k f] v k f show ?thesis by blast
qed

text \<open>C4. \<^verbatim>\<open>kf_mask\<close> returns a result when the four constraints hold, and otherwise
  fails, with no mask, with the message of a constraint that is violated: a supplied
  fmin or fmax that is not positive, fmin not below fmax, kmin not below kmax.\<close>

theorem kf_mask_validation:
  "(spec_bounds_valid fmin fmax kmin kmax \<longrightarrow>
      (\<exists>r. kf_mask wavenumber frequency fmin fmax kmin kmax return_individual = Inr r)) \<and>
   (\<not> spec_bounds_valid fmin fmax kmin kmax \<longrightarrow>
      (\<exists>msg. kf_mask wavenumber frequency fmin fmax kmin kmax return_individual
                = Inl (AssertionError msg) \<and>
             spec_names_violation msg fmin fmax kmin kmax))"
  using kf_mask_invalid [of fmin fmax kmin kmax wavenumber frequency return_individual]
  by (auto simp: kf_mask_valid combine_plus_minus_eq box_nonempty)

theorem kf_mask_validation_witness:
  \<open>spec_bounds_valid (Some 0.05) (Some 0.4) None (Some 14) \<and>
   (\<exists>r. kf_mask (Ndarray [1]) (Ndarray [0.1]) (Some 0.05) (Some 0.4) None (Some 14) True = Inr r) \<and>
   \<not> spec_bounds_valid (Some 0.06) (Some 0.05) None None \<and>
   kf_mask (Ndarray [1]) (Ndarray [0.1]) (Some 0.06) (Some 0.05) None None False
     = Inl (AssertionError ''"fmin" should be smaller than "fmax".'') \<and>
   \<not> spec_bounds_valid (Some (- 0.1)) None None None \<and>
   kf_mask (Ndarray [1]) (Ndarray [0.1]) (Some (- 0.1)) None None None False
     = Inl (AssertionError ''Frequency "fmin" must be greater than 0.'')\<close>
proof -
  have v: "spec_bounds_valid (Some 0.05) (Some 0.4) None (Some 14)"
    by (simp add: spec_bounds_valid_def)
  have n1: "\<not> spec_bounds_valid (Some 0.06) (Some 0.05) None None"
    by (simp add: spec_bounds_valid_def)
  have n2: "\<not> spec_bounds_valid (Some (- 0.1)) None None None"
    by (simp add: spec_bounds_valid_def)
  show ?thesis
    using v n1 n2
      kf_mask_validation [of "Some 0.05" "Some 0.4" None "Some 14" "Ndarray [1]" "Ndarray [0.1]" True]
      kf_mask_validation [of "Some 0.06" "Some 0.05" None None "Ndarray [1]" "Ndarray [0.1]" False]
      kf_mask_validation [of "Some (- 0.1)" None None None "Ndarray [1]" "Ndarray [0.1]" False]
    by (auto simp: spec_names_violation_def)
qed

subsection \<open>The wave mask\<close>

text \<open>C2. For a recognized wave type with a registered dispersion function and valid
  box bounds, \<^verbatim>\<open>wave_mask\<close> combines the box lists with the dispersion predicates
  appended: next to hmin greater-than on the plus branch, and on the minus branch
  greater-than for ig, eig, mrg and less-than for er, kelvin; next to hmax less-than on
  the plus branch, and on the minus branch less-than for ig, eig, mrg and greater-than
  for er, kelvin; the arrays are the non-dimensionalization at hmin and at hmax, and
  the mask is AND(plus) OR AND(minus).\<close>

theorem wave_mask_branches:
  assumes "wave_type \<in> set wave_types"
    and "wave_func cs wave_type = Some func"
    and "spec_bounds_valid fmin fmax kmin kmax"
  shows "\<exists>w f P M.
           wrap_to_xarray wavenumber frequency = (w, f) \<and>
           kf_mask w f fmin fmax kmin kmax True = Inr (Individual P M) \<and>
           wave_mask cs wavenumber frequency wave_type fmin fmax kmin kmax hmin hmax n =
             combine_plus_minus
               (P @ spec_disp_plus cs func w f hmin hmax n)
               (M @ spec_disp_minus cs func wave_type w f hmin hmax n) \<and>
           (\<exists>m. wave_mask cs wavenumber frequency wave_type fmin fmax kmin kmax hmin hmax n = Inr m \<and>
                (\<forall>b. m b \<longleftrightarrow>
                   list_all (\<lambda>p. p b) (P @ spec_disp_plus cs func w f hmin hmax n) \<or>
                   list_all (\<lambda>p. p b) (M @ spec_disp_minus cs func wave_type w f hmin hmax n)))"
proof -
  obtain w f where wf: "wrap_to_xarray wavenumber frequency = (w, f)"
    by (cases "wrap_to_xarray wavenumber frequency")
  let ?P = "box_plus wavenumber frequency fmin fmax kmin kmax"
  let ?M = "box_minus wavenumber frequency fmin fmax kmin kmax"
  have kf: "kf_mask w f fmin fmax kmin kmax True = Inr (Individual ?P ?M)"
    using kf_mask_wrapped [of wavenumber frequency fmin fmax kmin kmax True] assms(3)
    by (simp add: wf kf_mask_valid)
  have wm: "wave_mask cs wavenumber frequency wave_type fmin fmax kmin kmax hmin hmax n =
      combine_plus_minus (?P @ spec_disp_plus cs func w f hmin hmax n)
        (?M @ spec_disp_minus cs func wave_type w f hmin hmax n)"
    using wave_mask_valid [OF assms(3) assms(1) assms(2), of wavenumber frequency hmin hmax n]
    by (simp add: wf)
  have "combine_plus_minus (?P @ spec_disp_plus cs func w f hmin hmax n)
        (?M @ spec_disp_minus cs func wave_type w f hmin hmax n) =
      Inr (\<lambda>b. list_all (\<lambda>p. p b) (?P @ spec_disp_plus cs func w f hmin hmax n) \<or>
               list_all (\<lambda>p. p b) (?M @ spec_disp_minus cs func wave_type w f hmin hmax n))"
    by (rule combine_plus_minus_eq) (rule disp_wrap_nonempty)+
  with wf kf wm show ?thesis by simp
qed

theorem wave_mask_branches_witness:
  "''kelvin'' \<in> set wave_types \<and>
   spec_bounds_valid (Some 0.05) (Some 0.4) None (Some 14) \<and>
   (\<exists>m. wave_mask
          \<lparr>g = 9.8, radius_earth = 6371000, beta = 2.28 / 10 ^ 11,
           wave_func = [''kelvin'' \<mapsto> (\<lambda>op omega k n b. op = gt)]\<rparr>
          (Ndarray [- 1, 1]) (Ndarray [- 0.1, 0.1]) ''kelvin''
          (Some 0.05) (Some 0.4) None (Some 14) (Some 8) None 1 = Inr m \<and>
        m (1, 1) \<and> \<not> m (0, 0) \<and> \<not> m (1, 0))"
proof -
  let ?W = "Ndarray [- 1, 1]" and ?F = "Ndarray [- 0.1, 0.1]"
  let ?func = "\<lambda>(op :: operator) (omega :: array) (k :: array) (n :: int) (b :: bin). op = gt"
  let ?cs = "\<lparr>g = 9.8, radius_earth = 6371000, beta = 2.28 / 10 ^ 11,
           wave_func = [''kelvin'' \<mapsto> ?func]\<rparr>"
  have a: "''kelvin'' \<in> set wave_types"
    by (simp add: wave_types_def)
  have c: "wave_func ?cs ''kelvin'' = Some ?func"
    by simp
  have v: "spec_bounds_valid (Some 0.05) (Some 0.4) None (Some 14)"
    by (simp add: spec_bounds_valid_def)
  from wave_mask_branches [OF a c v, of ?W ?F "Some 8" None 1]
  obtain w f P M m where
    wf: "wrap_to_xarray ?W ?F = (w, f)"
    and kf: "kf_mask w f (Some 0.05) (Some 0.4) None (Some 14) True = Inr (Individual P M)"
    and r: "wave_mask ?cs ?W ?F ''kelvin'' (Some 0.05) (Some 0.4) None (Some 14) (Some 8) None 1
              = Inr m"
    and mb: "\<And>b. m b \<longleftrightarrow>
               list_all (\<lambda>p. p b) (P @ spec_disp_plus ?cs ?func w f (Some 8) None 1) \<or>
               list_all (\<lambda>p. p b) (M @ spec_disp_minus ?cs ?func ''kelvin'' w f (Some 8) None 1)"
    by blast
  from kf [unfolded kf_mask_valid [OF v]]
  have P: "P = box_plus w f (Some 0.05) (Some 0.4) None (Some 14)"
    and M: "M = box_minus w f (Some 0.05) (Some 0.4) None (Some 14)"
    by simp_all
  have at: "wn_at w = wn_at ?W" "fr_at f = fr_at ?F"
    using at_wrap [of ?W ?F, unfolded wf] by simp_all
  have "m (1, 1)" "\<not> m (0, 0)" "\<not> m (1, 0)"
    by (simp_all add: mb P M box_plus_all box_minus_all at spec_plus_branch_def
          spec_minus_branch_def fr_at_def wn_at_def spec_disp_plus_def spec_disp_minus_def
          spec_minus_op_hmin_def)
  with a v r show ?thesis by auto
qed

text \<open>C6. With box bounds that pass the validation of \<^verbatim>\<open>kf_mask\<close>, which runs first,
  \<^verbatim>\<open>wave_mask\<close> fails for a wave type outside the recognized list with the
  \<^verbatim>\<open>ValueError\<close> that names it; for a recognized wave type it never returns a
  \<^verbatim>\<open>ValueError\<close>; with invalid bounds the error of the box bounds is returned
  whatever the wave type.\<close>

theorem wave_mask_wave_type_check:
  "(spec_bounds_valid fmin fmax kmin kmax \<and> wave_type \<notin> set wave_types \<longrightarrow>
      wave_mask cs wavenumber frequency wave_type fmin fmax kmin kmax hmin hmax n
        = Inl (ValueError (unsupported_wave_type wave_type))) \<and>
   (wave_type \<in> set wave_types \<longrightarrow>
      (\<forall>msg. wave_mask cs wavenumber frequency wave_type fmin fmax kmin kmax hmin hmax n
               \<noteq> Inl (ValueError msg))) \<and>
   (\<not> spec_bounds_valid fmin fmax kmin kmax \<longrightarrow>
      (\<exists>msg. wave_mask cs wavenumber frequency wave_type fmin fmax kmin kmax hmin hmax n
               = Inl (AssertionError msg) \<and>
             spec_names_violation msg fmin fmax kmin kmax))"
proof (intro conjI impI allI)
  assume "spec_bounds_valid fmin fmax kmin kmax \<and> wave_type \<notin> set wave_types"
  then show "wave_mask cs wavenumber frequency wave_type fmin fmax kmin kmax hmin hmax n
        = Inl (ValueError (unsupported_wave_type wave_type))"
    by (simp add: wave_mask_unrecognized)
next
  fix msg
  assume wt: "wave_type \<in> set wave_types"
  show "wave_mask cs wavenumber frequency wave_type fmin fmax kmin kmax hmin hmax n
               \<noteq> Inl (ValueError msg)"
  proof (cases "spec_bounds_valid fmin fmax kmin kmax")
    case False
    from wave_mask_invalid [OF False, of cs wavenumber frequency wave_type hmin hmax n]
    show ?thesis by auto
  next
    case True
    show ?thesis
    proof (cases "wave_func cs wave_type")
      case None
      then show ?thesis
        using wave_mask_no_func [OF True wt, of cs wavenumber frequency hmin hmax n] by simp
    next
      case (Some func)
      then show ?thesis
        using wave_mask_valid [OF True wt, of cs func wavenumber frequency hmin hmax n]
        by (simp only: combine_box) simp
    qed
  qed
next
  assume "\<not> spec_bounds_valid fmin fmax kmin kmax"
  then show "\<exists>msg. wave_mask cs wavenumber frequency wave_type fmin fmax kmin kmax hmin hmax n
               = Inl (AssertionError msg) \<and>
             spec_names_violation msg fmin fmax kmin kmax"
    by (rule wave_mask_invalid)
qed

theorem wave_mask_wave_type_check_witness:
  \<open>spec_bounds_valid (Some 0.05) (Some 0.4) None (Some 14) \<and>
   ''bogus'' \<notin> set wave_types \<and>
   wave_mask \<lparr>g = 9.8, radius_earth = 6371000, beta = 2.28 / 10 ^ 11, wave_func = Map.empty\<rparr>
       (Ndarray [1]) (Ndarray [0.1]) ''bogus'' (Some 0.05) (Some 0.4) None (Some 14)
       (Some 8) (Some 90) 1
     = Inl (ValueError ''Unsupported wave_type "bogus".'') \<and>
   ''kelvin'' \<in> set wave_types \<and>
   wave_mask \<lparr>g = 9.8, radius_earth = 6371000, beta = 2.28 / 10 ^ 11, wave_func = Map.empty\<rparr>
       (Ndarray [1]) (Ndarray [0.1]) ''kelvin'' (Some 0.05) (Some 0.4) None (Some 14)
       (Some 8) (Some 90) 1
     \<noteq> Inl (ValueError ''Unsupported wave_type "kelvin".'') \<and>
   \<not> spec_bounds_valid (Some 0.06) (Some 0.05) None (Some 14) \<and>
   wave_mask \<lparr>g = 9.8, radius_earth = 6371000, beta = 2.28 / 10 ^ 11, wave_func = Map.empty\<rparr>
       (Ndarray [1]) (Ndarray [0.1]) ''bogus'' (Some 0.06) (Some 0.05) None (Some 14)
       (Some 8) (Some 90) 1
     = Inl (AssertionError ''"fmin" should be smaller than "fmax".'')\<close>
proof -
  let ?cs = "\<lparr>g = 9.8, radius_earth = 6371000, beta = 2.28 / 10 ^ 11, wave_func = Map.empty\<rparr>"
  have v: "spec_bounds_valid (Some 0.05) (Some 0.4) None (Some 14)"
    by (simp add: spec_bounds_valid_def)
  have n: "\<not> spec_bounds_valid (Some 0.06) (Some 0.05) None (Some 14)"
    by (simp add: spec_bounds_valid_def)
  have b: "''bogus'' \<notin> set wave_types" and k: "''kelvin'' \<in> set wave_types"
    by (simp_all add: wave_types_def)
  show ?thesis
    using v n b k
      wave_mask_wave_type_check [of "Some 0.05" "Some 0.4" None "Some 14" "''bogus''" ?cs
        "Ndarray [1]" "Ndarray [0.1]" "Some 8" "Some 90" 1]
      wave_mask_wave_type_check [of "Some 0.05" "Some 0.4" None "Some 14" "''kelvin''" ?cs
        "Ndarray [1]" "Ndarray [0.1]" "Some 8" "Some 90" 1]
      wave_mask_wave_type_check [of "Some 0.06" "Some 0.05" None "Some 14" "''bogus''" ?cs
        "Ndarray [1]" "Ndarray [0.1]" "Some 8" "Some 90" 1]
    by (auto simp: spec_names_violation_def unsupported_wave_type_def)
qed

text \<open>With an unrecognized wave type and a negative fmin the error is that of the box
  bounds: it names fmin, not the wave type.\<close>

theorem wave_mask_box_error_first:
  \<open>''bogus'' \<notin> set wave_types \<and>
   wave_mask \<lparr>g = 9.8, radius_earth = 6371000, beta = 2.28 / 10 ^ 11, wave_func = Map.empty\<rparr>
       (Ndarray [1]) (Ndarray [0.1]) ''bogus'' (Some (- 1)) (Some 0.4) None (Some 14)
       (Some 8) (Some 90) 1
     = Inl (AssertionError ''Frequency "fmin" must be greater than 0.'')\<close>
  by (simp add: wave_types_def wave_mask_def kf_mask_def wrap_to_xarray_def)

subsection \<open>The tropical-depression mask\<close>

text \<open>C5. \<^verbatim>\<open>td_mask\<close> appends to the box lists the two empirical boundaries of
  each branch, in the source's order, and returns AND(plus) OR AND(minus); its keyword
  defaults are kmin = -20, kmax = -6 and no fmin, fmax.\<close>

theorem td_mask_branches:
  "td_mask_default wavenumber frequency =
     td_mask wavenumber frequency None None (Some (- 20)) (Some (- 6)) \<and>
   (spec_bounds_valid fmin fmax kmin kmax \<longrightarrow>
    (\<exists>w f P M.
       wrap_to_xarray wavenumber frequency = (w, f) \<and>
       kf_mask w f fmin fmax kmin kmax True = Inr (Individual P M) \<and>
       td_mask wavenumber frequency fmin fmax kmin kmax =
         combine_plus_minus
           (P @ [\<lambda>b. 84 * fr_at f b + wn_at w b - 22 < 0,
                 \<lambda>b. 210 * fr_at f b + 2.5 * wn_at w b - 13 > 0])
           (M @ [\<lambda>b. 84 * fr_at f b + wn_at w b + 22 > 0,
                 \<lambda>b. 210 * fr_at f b + 2.5 * wn_at w b + 13 < 0]) \<and>
       (\<exists>m. td_mask wavenumber frequency fmin fmax kmin kmax = Inr m \<and>
            (\<forall>b. m b \<longleftrightarrow>
               (list_all (\<lambda>p. p b) P \<and>
                84 * fr_at frequency b + wn_at wavenumber b - 22 < 0 \<and>
                210 * fr_at frequency b + 2.5 * wn_at wavenumber b - 13 > 0) \<or>
               (list_all (\<lambda>p. p b) M \<and>
                84 * fr_at frequency b + wn_at wavenumber b + 22 > 0 \<and>
                210 * fr_at frequency b + 2.5 * wn_at wavenumber b + 13 < 0)))))"
proof (intro conjI impI)
  show "td_mask_default wavenumber frequency =
     td_mask wavenumber frequency None None (Some (- 20)) (Some (- 6))"
    by (simp add: td_mask_default_def)
next
  assume v: "spec_bounds_valid fmin fmax kmin kmax"
  obtain w f where wf: "wrap_to_xarray wavenumber frequency = (w, f)"
    by (cases "wrap_to_xarray wavenumber frequency")
  let ?P = "box_plus wavenumber frequency fmin fmax kmin kmax"
  let ?M = "box_minus wavenumber frequency fmin fmax kmin kmax"
  let ?m = "\<lambda>b. (list_all (\<lambda>p. p b) ?P \<and>
                84 * fr_at frequency b + wn_at wavenumber b - 22 < 0 \<and>
                210 * fr_at frequency b + 2.5 * wn_at wavenumber b - 13 > 0) \<or>
               (list_all (\<lambda>p. p b) ?M \<and>
                84 * fr_at frequency b + wn_at wavenumber b + 22 > 0 \<and>
                210 * fr_at frequency b + 2.5 * wn_at wavenumber b + 13 < 0)"
  have kf: "kf_mask w f fmin fmax kmin kmax True = Inr (Individual ?P ?M)"
    using kf_mask_wrapped [of wavenumber frequency fmin fmax kmin kmax True] v
    by (simp add: wf kf_mask_valid)
  have at: "wn_at w = wn_at wavenumber" "fr_at f = fr_at frequency"
    using at_wrap [of wavenumber frequency] by (simp_all add: wf)
  note td = td_mask_valid [OF v, of wavenumber frequency]
  have lists: "td_mask wavenumber frequency fmin fmax kmin kmax =
         combine_plus_minus
           (?P @ [\<lambda>b. 84 * fr_at f b + wn_at w b - 22 < 0,
                 \<lambda>b. 210 * fr_at f b + 2.5 * wn_at w b - 13 > 0])
           (?M @ [\<lambda>b. 84 * fr_at f b + wn_at w b + 22 > 0,
                 \<lambda>b. 210 * fr_at f b + 2.5 * wn_at w b + 13 < 0])"
    unfolding at by (rule td)
  have tdm: "td_mask wavenumber frequency fmin fmax kmin kmax = Inr ?m"
    unfolding td combine_box by simp
  have bins: "\<exists>m. td_mask wavenumber frequency fmin fmax kmin kmax = Inr m \<and>
            (\<forall>b. m b \<longleftrightarrow>
               (list_all (\<lambda>p. p b) ?P \<and>
                84 * fr_at frequency b + wn_at wavenumber b - 22 < 0 \<and>
                210 * fr_at frequency b + 2.5 * wn_at wavenumber b - 13 > 0) \<or>
               (list_all (\<lambda>p. p b) ?M \<and>
                84 * fr_at frequency b + wn_at wavenumber b + 22 > 0 \<and>
                210 * fr_at frequency b + 2.5 * wn_at wavenumber b + 13 < 0))"
    by (rule exI [of _ ?m], rule conjI, rule tdm, rule allI, rule refl)
  show "\<exists>w f P M.
       wrap_to_xarray wavenumber frequency = (w, f) \<and>
       kf_mask w f fmin fmax kmin kmax True = Inr (Individual P M) \<and>
       td_mask wavenumber frequency fmin fmax kmin kmax =
         combine_plus_minus
           (P @ [\<lambda>b. 84 * fr_at f b + wn_at w b - 22 < 0,
                 \<lambda>b. 210 * fr_at f b + 2.5 * wn_at w b - 13 > 0])
           (M @ [\<lambda>b. 84 * fr_at f b + wn_at w b + 22 > 0,
                 \<lambda>b. 210 * fr_at f b + 2.5 * wn_at w b + 13 < 0]) \<and>
       (\<exists>m. td_mask wavenumber frequency fmin fmax kmin kmax = Inr m \<and>
            (\<forall>b. m b \<longleftrightarrow>
               (list_all (\<lambda>p. p b) P \<and>
                84 * fr_at frequency b + wn_at wavenumber b - 22 < 0 \<and>
                210 * fr_at frequency b + 2.5 * wn_at wavenumber b - 13 > 0) \<or>
               (list_all (\<lambda>p. p b) M \<and>
                84 * fr_at frequency b + wn_at wavenumber b + 22 > 0 \<and>
                210 * fr_at frequency b + 2.5 * wn_at wavenumber b + 13 < 0)))"
    apply (rule exI [of _ w])
    apply (rule exI [of _ f])
    apply (rule exI [of _ ?P])
    apply (rule exI [of _ ?M])
    apply (intro conjI)
       apply (rule wf)
      apply (rule kf)
     apply (rule lists)
    apply (rule bins)
    done
qed

theorem td_mask_branches_witness:
  "spec_bounds_valid None None (Some (- 20)) (Some (- 6)) \<and>
   (\<exists>m. td_mask_default (Ndarray [- 10, 10]) (Ndarray [0.1, 0.25]) = Inr m \<and>
        m (0, 1) \<and> \<not> m (0, 0) \<and> \<not> m (1, 0))"
proof -
  let ?W = "Ndarray [- 10, 10]" and ?F = "Ndarray [0.1, 0.25]"
  have v: "spec_bounds_valid None None (Some (- 20)) (Some (- 6))"
    by (simp add: spec_bounds_valid_def)
  from td_mask_branches [of ?W ?F None None "Some (- 20)" "Some (- 6)"] v
  obtain w f P M m where
    d: "td_mask_default ?W ?F = td_mask ?W ?F None None (Some (- 20)) (Some (- 6))"
    and kf: "kf_mask w f None None (Some (- 20)) (Some (- 6)) True = Inr (Individual P M)"
    and wf: "wrap_to_xarray ?W ?F = (w, f)"
    and r: "td_mask ?W ?F None None (Some (- 20)) (Some (- 6)) = Inr m"
    and mb: "\<And>b. m b \<longleftrightarrow>
               (list_all (\<lambda>p. p b) P \<and>
                84 * fr_at ?F b + wn_at ?W b - 22 < 0 \<and>
                210 * fr_at ?F b + 2.5 * wn_at ?W b - 13 > 0) \<or>
               (list_all (\<lambda>p. p b) M \<and>
                84 * fr_at ?F b + wn_at ?W b + 22 > 0 \<and>
                210 * fr_at ?F b + 2.5 * wn_at ?W b + 13 < 0)"
    by blast
  from kf have P: "P = box_plus w f None None (Some (- 20)) (Some (- 6))"
    and M: "M = box_minus w f None None (Some (- 20)) (Some (- 6))"
    by (simp_all add: kf_mask_valid [OF v])
  have at: "wn_at w = wn_at ?W" "fr_at f = fr_at ?F"
    using at_wrap [of ?W ?F, unfolded wf] by simp_all
  have "m (0, 1)" "\<not> m (0, 0)" "\<not> m (1, 0)"
    by (simp_all add: mb P M box_plus_all box_minus_all at spec_plus_branch_def
          spec_minus_branch_def fr_at_def wn_at_def)
  with v d r show ?thesis by auto
qed

subsection \<open>Non-dimensionalization and wrapping\<close>

text \<open>C7. For an equivalent depth h > 0 the pair returned by \<^verbatim>\<open>_nondim_k_omega\<close>
  holds, value by value, wavenumber / R_earth * sqrt (c / beta) and
  frequency * 2 * pi / 86400 / sqrt (beta * c) with c = sqrt (g * h).\<close>

theorem nondim_k_omega_formula:
  assumes "0 < h"
  shows "values_of (fst (nondim_k_omega cs wavenumber frequency h)) =
           map (\<lambda>x. x / radius_earth cs * sqrt (sqrt (g cs * h) / beta cs)) (values_of wavenumber) \<and>
         values_of (snd (nondim_k_omega cs wavenumber frequency h)) =
           map (\<lambda>x. x * 2 * pi / 86400 / sqrt (beta cs * sqrt (g cs * h))) (values_of frequency)"
  by (simp add: nondim_k_omega_def Let_def arr_mul_def arr_div_def values_of_elementwise)

theorem nondim_k_omega_formula_witness:
  "(0::real) < 4 \<and>
   values_of (fst (nondim_k_omega \<lparr>g = 1, radius_earth = 1, beta = 2, wave_func = Map.empty\<rparr>
       (Ndarray [3]) (Ndarray [86400]) 4)) = [3] \<and>
   values_of (snd (nondim_k_omega \<lparr>g = 1, radius_earth = 1, beta = 2, wave_func = Map.empty\<rparr>
       (Ndarray [3]) (Ndarray [86400]) 4)) = [pi]"
proof -
  have h: "(0::real) < 4" by simp
  from nondim_k_omega_formula [OF h,
      of "\<lparr>g = 1, radius_earth = 1, beta = 2, wave_func = Map.empty\<rparr>" "Ndarray [3]" "Ndarray [86400]"]
  show ?thesis by simp
qed

text \<open>C8. \<^verbatim>\<open>_wrap_to_xarray\<close> turns a raw array into a labelled one whose coordinate is
  its own values, returns a labelled array as it is, always returns labelled arrays,
  and applied to its own result returns that result.\<close>

theorem wrap_to_xarray_idempotent:
  "wrap_to_xarray (Ndarray kv) frequency =
     (Xr \<lparr>data = kv, dims = [''wavenumber''], coords = [(''wavenumber'', kv)]\<rparr>,
      snd (wrap_to_xarray wavenumber frequency)) \<and>
   wrap_to_xarray wavenumber (Ndarray fv) =
     (fst (wrap_to_xarray wavenumber frequency),
      Xr \<lparr>data = fv, dims = [''frequency''], coords = [(''frequency'', fv)]\<rparr>) \<and>
   wrap_to_xarray (Xr kd) (Xr fd) = (Xr kd, Xr fd) \<and>
   is_labeled (fst (wrap_to_xarray wavenumber frequency)) \<and>
   is_labeled (snd (wrap_to_xarray wavenumber frequency)) \<and>
   wrap_to_xarray (fst (wrap_to_xarray wavenumber frequency))
       (snd (wrap_to_xarray wavenumber frequency))
     = wrap_to_xarray wavenumber frequency"
  by (simp add: wrap_to_xarray_def Let_def split: array.splits)

text \<open>C9. The pair returned by \<^verbatim>\<open>_nondim_k_omega\<close> has the shapes of the inputs and
  their kind: raw for a raw input, labelled with the dimension and coordinates of the
  input for a labelled input.\<close>

theorem nondim_k_omega_keeps_kind:
  "shape (fst (nondim_k_omega cs wavenumber frequency h)) = shape wavenumber \<and>
   shape (snd (nondim_k_omega cs wavenumber frequency h)) = shape frequency \<and>
   is_labeled (fst (nondim_k_omega cs wavenumber frequency h)) = is_labeled wavenumber \<and>
   is_labeled (snd (nondim_k_omega cs wavenumber frequency h)) = is_labeled frequency \<and>
   labels_of (fst (nondim_k_omega cs wavenumber frequency h)) = labels_of wavenumber \<and>
   labels_of (snd (nondim_k_omega cs wavenumber frequency h)) = labels_of frequency"
  by (simp add: nondim_k_omega_def Let_def arr_mul_def arr_div_def values_of_elementwise
        labels_of_elementwise is_labeled_elementwise)

text \<open>On labelled inputs, the arrays \<^verbatim>\<open>wave_mask\<close> passes, both outputs are labelled.\<close>

theorem nondim_k_omega_labeled_output:
  "is_labeled (fst (nondim_k_omega
       \<lparr>g = 9.8, radius_earth = 6371000, beta = 2.28 / 10 ^ 11, wave_func = Map.empty\<rparr>
       (Xr \<lparr>data = [1], dims = [''wavenumber''], coords = [(''wavenumber'', [1])]\<rparr>)
       (Xr \<lparr>data = [0.1], dims = [''frequency''], coords = [(''frequency'', [0.1])]\<rparr>) 8)) \<and>
   is_labeled (snd (nondim_k_omega
       \<lparr>g = 9.8, radius_earth = 6371000, beta = 2.28 / 10 ^ 11, wave_func = Map.empty\<rparr>
       (Xr \<lparr>data = [1], dims = [''wavenumber''], coords = [(''wavenumber'', [1])]\<rparr>)
       (Xr \<lparr>data = [0.1], dims = [''frequency''], coords = [(''frequency'', [0.1])]\<rparr>) 8))"
  by (simp add: nondim_k_omega_def Let_def arr_mul_def arr_div_def)

subsection \<open>Zero frequency\<close>

text \<open>C10. A mask returned by \<^verbatim>\<open>kf_mask\<close>, \<^verbatim>\<open>wave_mask\<close> or \<^verbatim>\<open>td_mask\<close> is False
  at every bin whose frequency is 0, whatever the bounds, the wave type and the
  equivalent depths.\<close>

theorem zero_frequency_never_selected:
  assumes "fr_at frequency b = 0"
  shows "(\<forall>m. kf_mask wavenumber frequency fmin fmax kmin kmax False = Inr (Combined m) \<longrightarrow> \<not> m b) \<and>
         (\<forall>m. wave_mask cs wavenumber frequency wave_type fmin fmax kmin kmax hmin hmax n = Inr m
                \<longrightarrow> \<not> m b) \<and>
         (\<forall>m. td_mask wavenumber frequency fmin fmax kmin kmax = Inr m \<longrightarrow> \<not> m b)"
proof (cases "spec_bounds_valid fmin fmax kmin kmax")
  case False
  from kf_mask_invalid [OF False, of wavenumber frequency False]
  have a: "\<forall>m. kf_mask wavenumber frequency fmin fmax kmin kmax False = Inr (Combined m) \<longrightarrow> \<not> m b"
    by auto
  from wave_mask_invalid [OF False, of cs wavenumber frequency wave_type hmin hmax n]
  have c: "\<forall>m. wave_mask cs wavenumber frequency wave_type fmin fmax kmin kmax hmin hmax n = Inr m
                \<longrightarrow> \<not> m b"
    by auto
  from td_mask_invalid [OF False, of wavenumber frequency]
  have d: "\<forall>m. td_mask wavenumber frequency fmin fmax kmin kmax = Inr m \<longrightarrow> \<not> m b"
    by auto
  from a c d show ?thesis by (intro conjI)
next
  case True
  have kf: "\<forall>m. kf_mask wavenumber frequency fmin fmax kmin kmax False = Inr (Combined m) \<longrightarrow> \<not> m b"
  proof (intro allI impI)
    fix m
    assume "kf_mask wavenumber frequency fmin fmax kmin kmax False = Inr (Combined m)"
    then have "combine_plus_minus (box_plus wavenumber frequency fmin fmax kmin kmax @ [])
        (box_minus wavenumber frequency fmin fmax kmin kmax @ []) = Inr m"
      by (simp add: kf_mask_valid [OF True] split: sum.splits)
    then show "\<not> m b" by (rule combine_box_zero [OF assms])
  qed
  have td: "\<forall>m. td_mask wavenumber frequency fmin fmax kmin kmax = Inr m \<longrightarrow> \<not> m b"
  proof (intro allI impI)
    fix m
    assume "td_mask wavenumber frequency fmin fmax kmin kmax = Inr m"
    then show "\<not> m b"
      unfolding td_mask_valid [OF True] by (rule combine_box_zero [OF assms])
  qed
  have wv: "\<forall>m. wave_mask cs wavenumber frequency wave_type fmin fmax kmin kmax hmin hmax n = Inr m
                \<longrightarrow> \<not> m b"
  proof (intro allI impI)
    fix m
    assume r: "wave_mask cs wavenumber frequency wave_type fmin fmax kmin kmax hmin hmax n = Inr m"
    show "\<not> m b"
    proof (cases "wave_type \<in> set wave_types")
      case False
      with r show ?thesis by (simp add: wave_mask_unrecognized [OF True])
    next
      case wt: True
      show ?thesis
      proof (cases "wave_func cs wave_type")
        case None
        with r show ?thesis by (simp add: wave_mask_no_func [OF True wt])
      next
        case (Some func)
        from r show ?thesis
          unfolding wave_mask_valid [OF True wt Some] by (rule combine_box_zero [OF assms])
      qed
    qed
  qed
  from kf wv td show ?thesis by (intro conjI)
qed

theorem zero_frequency_never_selected_witness:
  "fr_at (Ndarray [0, 0.25]) (0, 0) = 0 \<and>
   (\<exists>m. kf_mask (Ndarray [- 10, 10]) (Ndarray [0, 0.25]) (Some 0.05) None None None False
          = Inr (Combined m) \<and> \<not> m (0, 0)) \<and>
   (\<exists>m. wave_mask
          \<lparr>g = 9.8, radius_earth = 6371000, beta = 2.28 / 10 ^ 11,
           wave_func = [''ig'' \<mapsto> (\<lambda>op omega k n b. True)]\<rparr>
          (Ndarray [- 10, 10]) (Ndarray [0, 0.25]) ''ig''
          None None None None (Some 8) (Some 90) 1 = Inr m \<and> \<not> m (0, 0)) \<and>
   (\<exists>m. td_mask (Ndarray [- 10, 10]) (Ndarray [0, 0.25]) None None (Some (- 20)) (Some (- 6))
          = Inr m \<and> \<not> m (0, 0))"
proof -
  let ?W = "Ndarray [- 10, 10]" and ?F = "Ndarray [0, 0.25]"
  let ?func = "\<lambda>(op :: operator) (omega :: array) (k :: array) (n :: int) (b :: bin). True"
  let ?cs = "\<lparr>g = 9.8, radius_earth = 6371000, beta = 2.28 / 10 ^ 11,
           wave_func = [''ig'' \<mapsto> ?func]\<rparr>"
  have z: "fr_at ?F (0, 0) = 0"
    by (simp add: fr_at_def)
  have v1: "spec_bounds_valid (Some 0.05) None None None"
    and v2: "spec_bounds_valid None None None None"
    and v3: "spec_bounds_valid None None (Some (- 20)) (Some (- 6))"
    by (simp_all add: spec_bounds_valid_def)
  have "\<exists>m. kf_mask ?W ?F (Some 0.05) None None None False = Inr (Combined m)"
    unfolding kf_mask_combined [OF v1] by blast
  with zero_frequency_never_selected [OF z, of ?W "Some 0.05" None None None]
  have k: "\<exists>m. kf_mask ?W ?F (Some 0.05) None None None False = Inr (Combined m) \<and> \<not> m (0, 0)"
    by blast
  have ig: "''ig'' \<in> set wave_types"
    by (simp add: wave_types_def)
  have wfn: "wave_func ?cs ''ig'' = Some ?func"
    by simp
  have "\<exists>m. wave_mask ?cs ?W ?F ''ig'' None None None None (Some 8) (Some 90) 1 = Inr m"
    unfolding wave_mask_valid [OF v2 ig wfn] combine_box by blast
  with zero_frequency_never_selected [OF z, of ?W None None None None ?cs "''ig''" "Some 8" "Some 90" 1]
  have wv: "\<exists>m. wave_mask ?cs ?W ?F ''ig'' None None None None (Some 8) (Some 90) 1 = Inr m
              \<and> \<not> m (0, 0)"
    by blast
  have "\<exists>m. td_mask ?W ?F None None (Some (- 20)) (Some (- 6)) = Inr m"
    unfolding td_mask_valid [OF v3] combine_box by blast
  with zero_frequency_never_selected [OF z, of ?W None None "Some (- 20)" "Some (- 6)"]
  have td: "\<exists>m. td_mask ?W ?F None None (Some (- 20)) (Some (- 6)) = Inr m \<and> \<not> m (0, 0)"
    by blast
  from z k wv td show ?thesis by (intro conjI)
qed

end
